theory Spec2Isabelle
  imports Main
begin

section \<open>The Relax IR fragment used by the operator library and by the Gradient pass\<close>

text \<open>
  Variables are identified by the object that was allocated for them. A variable of the
  forward program carries its name hint; a variable created by \<^verbatim>\<open>Var()\<close> during the
  pass is identified by the value of the allocation counter at its creation.
\<close>

datatype var = Named string | Fresh nat

datatype DataTypeCode = kInt | kUInt | kFloat | kHandle | kBFloat

datatype DataType = DataType (code: DataTypeCode) (bits: nat) (lanes: nat)

datatype rtype = DynTensorType DataType | TupleType "rtype list"

datatype attrs =
    NoAttrs
  | NLLLossAttrs (attrs_reduction: string) (attrs_ignore_index: int)

text \<open>
  \<^verbatim>\<open>Call(op, args, attrs, {})\<close>: every constructor call in the sources passes the empty
  list of struct-info arguments, so a call is its operator name, its arguments and its
  attributes. \<open>TypeArg\<close> is the type operand the draft hands to \<^verbatim>\<open>relax.zeros\<close>.
\<close>

datatype expr =
    Var var
  | Tuple "expr list"
  | TupleGetItem expr nat
  | Call string "expr list" attrs
  | ShapeExpr "nat list"
  | TypeArg rtype
  | Constant int

datatype StructInfo =
    TensorStructInfo (dtype: DataType) (shape: "nat list option")
  | TupleStructInfo "StructInfo list"
  | ShapeStructInfo
  | ObjectStructInfo

text \<open>
  Failures of the operator library: \<^verbatim>\<open>ctx->ReportFatal\<close> and failed \<^verbatim>\<open>ICHECK\<close>s
  throw; they are values here.
\<close>

datatype diagnostic =
    RequiresFloatDtype string DataType
  | WrongNumberOfInputs string
  | InputNotTensor string
  | StructInfoNotPopulated
  | ArgIndexOutOfRange

type_synonym 'a result = "diagnostic + 'a"

text \<open>
  Modelled from the spec: \<^verbatim>\<open>DataType::is_float\<close> and
  \<^verbatim>\<open>TensorStructInfoNode::IsUnknownDtype\<close> are declared outside the files at hand.
  A dtype is a float dtype when its type code is \<open>kFloat\<close>; it is unknown when it is the
  void type (handle code, zero bits, zero lanes).
\<close>

definition is_float :: "DataType \<Rightarrow> bool" where
  "is_float t = (code t = kFloat)"

definition is_void :: "DataType \<Rightarrow> bool" where
  "is_void t = (code t = kHandle \<and> bits t = 0 \<and> lanes t = 0)"

definition IsUnknownDtype :: "DataType \<Rightarrow> bool" where
  "IsUnknownDtype t = is_void t"

text \<open>
  Modelled from the spec: \<^verbatim>\<open>GetStructInfo\<close> is declared outside the files at hand.
  The \<^verbatim>\<open>struct_info_\<close> field of an expression is read through an environment:
  \<open>None\<close> is a field that has not been populated, on which \<^verbatim>\<open>GetStructInfo\<close> fails
  its check.
\<close>

type_synonym sinfo_env = "expr \<Rightarrow> StructInfo option"

definition GetStructInfo :: "sinfo_env \<Rightarrow> expr \<Rightarrow> StructInfo result" where
  "GetStructInfo \<Gamma> e = (case \<Gamma> e of None \<Rightarrow> Inl StructInfoNotPopulated | Some si \<Rightarrow> Inr si)"

text \<open>
  Modelled from the spec: the array type is declared outside the files at hand;
  \<^verbatim>\<open>call->args[i]\<close> on a TVM array checks its bound.
\<close>

definition arg_at :: "expr list \<Rightarrow> nat \<Rightarrow> expr result" where
  "arg_at args i = (if i < length args then Inr (args ! i) else Inl ArgIndexOutOfRange)"

subsection \<open>op\_common.h: struct-info inference of unary operators\<close>

text \<open>
  Modelled from the spec: \<^verbatim>\<open>GetInputTensorStructInfo\<close> is only declared in
  \<^verbatim>\<open>op_common.h\<close>. Its documentation requires the number of call arguments to match
  the number of inputs of the operator and every input to be a tensor, and it returns the
  tensor struct info of each input. \<open>n_inputs\<close> is the registered \<^verbatim>\<open>set_num_inputs\<close>.
\<close>

fun tensor_sinfos :: "string \<Rightarrow> sinfo_env \<Rightarrow> expr list \<Rightarrow> StructInfo list result" where
  "tensor_sinfos opn \<Gamma> [] = Inr []"
| "tensor_sinfos opn \<Gamma> (a # as) =
     (case GetStructInfo \<Gamma> a of
        Inl d \<Rightarrow> Inl d
      | Inr (TensorStructInfo dt sh) \<Rightarrow>
          (case tensor_sinfos opn \<Gamma> as of
             Inl d \<Rightarrow> Inl d
           | Inr sis \<Rightarrow> Inr (TensorStructInfo dt sh # sis))
      | Inr _ \<Rightarrow> Inl (InputNotTensor opn))"

definition GetInputTensorStructInfo ::
  "nat \<Rightarrow> sinfo_env \<Rightarrow> expr \<Rightarrow> StructInfo list result" where
  "GetInputTensorStructInfo n_inputs \<Gamma> call =
     (case call of
        Call opn args at \<Rightarrow>
          (if length args \<noteq> n_inputs then Inl (WrongNumberOfInputs opn)
           else tensor_sinfos opn \<Gamma> args)
      | _ \<Rightarrow> Inl (WrongNumberOfInputs []))"

text \<open>
  \<^verbatim>\<open>GetUnaryInputTensorStructInfo(call, ctx)\<close> is
  \<^verbatim>\<open>GetInputTensorStructInfo(call, ctx)[0]\<close>; a unary operator is registered with
  \<^verbatim>\<open>set_num_inputs(1)\<close>.
\<close>

definition GetUnaryInputTensorStructInfo :: "sinfo_env \<Rightarrow> expr \<Rightarrow> StructInfo result" where
  "GetUnaryInputTensorStructInfo \<Gamma> call =
     (case GetInputTensorStructInfo 1 \<Gamma> call of
        Inl d \<Rightarrow> Inl d
      | Inr sis \<Rightarrow> (case sis of [] \<Rightarrow> Inl ArgIndexOutOfRange | si # _ \<Rightarrow> Inr si))"

definition call_op :: "expr \<Rightarrow> string" where
  "call_op e = (case e of Call opn args at \<Rightarrow> opn | _ \<Rightarrow> [])"

text \<open>
  \<^verbatim>\<open>InferStructInfoUnary<require_float_dtype>\<close>: the template argument is the first
  parameter. \<^verbatim>\<open>ReportFatal\<close> does not return.
\<close>

definition InferStructInfoUnary :: "bool \<Rightarrow> sinfo_env \<Rightarrow> expr \<Rightarrow> StructInfo result" where
  "InferStructInfoUnary require_float_dtype \<Gamma> call =
     (case GetUnaryInputTensorStructInfo \<Gamma> call of
        Inl d \<Rightarrow> Inl d
      | Inr input_sinfo \<Rightarrow>
          (if require_float_dtype \<and> \<not> IsUnknownDtype (dtype input_sinfo)
              \<and> \<not> is_float (dtype input_sinfo)
           then Inl (RequiresFloatDtype (call_op call) (dtype input_sinfo))
           else Inr input_sinfo))"

text \<open>
  unary.cc: the arithmetic operators registered with
  \<^verbatim>\<open>RELAX_REGISTER_UNARY_ARITH_OP_AND_IMPL(name, require_float_dtype)\<close>, in the order of
  the file.
\<close>

definition unary_arith_ops :: "(string \<times> bool) list" where
  "unary_arith_ops =
     [(''abs'', False), (''acos'', True), (''acosh'', True), (''asin'', True),
      (''asinh'', True), (''atan'', True), (''atanh'', True), (''ceil'', False),
      (''cos'', True), (''cosh'', True), (''exp'', True), (''floor'', False),
      (''log'', True), (''negative'', False), (''round'', False), (''sigmoid'', True),
      (''sign'', False), (''sin'', True), (''sinh'', True), (''square'', True),
      (''sqrt'', True), (''tan'', True), (''tanh'', True)]"

text \<open>
  Modelled from the spec: the macro \<^verbatim>\<open>RELAX_REGISTER_UNARY_ARITH_OP_AND_IMPL\<close> is
  defined in \<^verbatim>\<open>unary.h\<close>, which is not among the files at hand. It is taken to register
  the operator as \<^verbatim>\<open>RELAX_REGISTER_UNARY_OP_INTERFACE\<close> of \<^verbatim>\<open>op_common.h\<close> does:
  under the name \<^verbatim>\<open>relax.<name>\<close>, with
  \<^verbatim>\<open>InferStructInfoUnary<require_float_dtype>\<close> as its \<^verbatim>\<open>FInferStructInfo\<close>.
\<close>

definition unary_registry :: "(string \<times> bool) list" where
  "unary_registry = map (\<lambda>(n, b). (''relax.'' @ n, b)) unary_arith_ops"

definition FInferStructInfo_unary ::
  "string \<Rightarrow> (sinfo_env \<Rightarrow> expr \<Rightarrow> StructInfo result) option" where
  "FInferStructInfo_unary opn = map_option InferStructInfoUnary (map_of unary_registry opn)"

subsection \<open>grad.cc: the backward operators\<close>

definition nll_loss_backward ::
  "expr \<Rightarrow> expr \<Rightarrow> expr \<Rightarrow> expr option \<Rightarrow> string \<Rightarrow> int \<Rightarrow> expr" where
  "nll_loss_backward output_grad predictions targets weights reduction ignore_index =
     (let attrs = NLLLossAttrs reduction ignore_index in
      case weights of
        Some w \<Rightarrow> Call ''relax.grad.nll_loss_backward'' [output_grad, predictions, targets, w] attrs
      | None \<Rightarrow> Call ''relax.grad.nll_loss_backward'' [output_grad, predictions, targets] attrs)"

definition call_args :: "expr \<Rightarrow> expr list" where
  "call_args e = (case e of Call opn args at \<Rightarrow> args | _ \<Rightarrow> [])"

definition call_attrs :: "expr \<Rightarrow> attrs" where
  "call_attrs e = (case e of Call opn args at \<Rightarrow> at | _ \<Rightarrow> NoAttrs)"

text \<open>
  \<^verbatim>\<open>InferStructInfoNLLLossBackward\<close>, \<^verbatim>\<open>InferStructInfoMaxPool2DBackward\<close>,
  \<^verbatim>\<open>InferStructInfoAvgPool2DBackward\<close> and \<^verbatim>\<open>InferStructInfoTakeBackward\<close> have the
  same body: \<^verbatim>\<open>return GetStructInfo(call->args[1])\<close>.
\<close>

definition InferStructInfoNLLLossBackward :: "sinfo_env \<Rightarrow> expr \<Rightarrow> StructInfo result" where
  "InferStructInfoNLLLossBackward \<Gamma> call =
     (case arg_at (call_args call) 1 of Inl d \<Rightarrow> Inl d | Inr a \<Rightarrow> GetStructInfo \<Gamma> a)"

definition InferStructInfoMaxPool2DBackward :: "sinfo_env \<Rightarrow> expr \<Rightarrow> StructInfo result" where
  "InferStructInfoMaxPool2DBackward \<Gamma> call =
     (case arg_at (call_args call) 1 of Inl d \<Rightarrow> Inl d | Inr a \<Rightarrow> GetStructInfo \<Gamma> a)"

section \<open>The Gradient pass of the draft (AD\_Draft.md)\<close>

text \<open>
  The draft gives the pass as Python-like pseudo code. Its helper functions are embedded
  one by one, under their own names; a failed \<^verbatim>\<open>assert\<close>, a read of a map at an
  absent key, a read of a list out of range and a failed cast are values of \<open>ad_error\<close>.
\<close>

datatype ad_error =
    UnknownGradient string
  | AssertionFailed
  | KeyError
  | IndexError
  | CastFailed
  | UnsupportedBinding

text \<open>
  The state of one run, with the field names of the draft less their trailing underscore:
  the two maps of the section ``Expr and Var'', the map \<^verbatim>\<open>adjoint_expr_to_var_\<close> of
  the section ``Addition'', the bindings emitted so far (in emission order) and the
  allocation counter behind \<^verbatim>\<open>Var()\<close>.
\<close>

record ad_state =
  adjoint_var_map :: "var \<rightharpoonup> var"
  adjoint_expr_map :: "var \<rightharpoonup> expr"
  adjoint_expr_to_var :: "expr \<rightharpoonup> var"
  emitted :: "(var \<times> expr) list"
  next_var :: nat

text \<open>
  What a run reads and never writes: the target (the returned variable), the gradient
  registered for each operator (\<^verbatim>\<open>FPrimalGradient\<close>, from the original call and the
  output gradient to one partial per argument), and the \<^verbatim>\<open>shape\<close> and
  \<^verbatim>\<open>checked_type\<close> fields of the forward variables.
\<close>

record ad_ctx =
  target :: var
  gradient_map :: "string \<rightharpoonup> (expr \<Rightarrow> expr \<Rightarrow> expr list)"
  var_shape :: "var \<rightharpoonup> expr"
  checked_type :: "var \<rightharpoonup> rtype"

definition init_state :: ad_state where
  "init_state = \<lparr>adjoint_var_map = Map.empty, adjoint_expr_map = Map.empty,
                 adjoint_expr_to_var = Map.empty, emitted = [], next_var = 0\<rparr>"

subsection \<open>Addition and ReplaceExprByVar (final version of the section ``Addition'')\<close>

definition ReplaceExprByVar :: "(expr \<rightharpoonup> var) \<Rightarrow> expr \<Rightarrow> expr" where
  "ReplaceExprByVar m e = (case m e of Some v \<Rightarrow> Var v | None \<Rightarrow> e)"

text \<open>
  \<open>Addition_fields\<close> is the loop \<^verbatim>\<open>for i in len(base): ret.append(Addition(base[i],
  increment[i]))\<close>; the assertion before it has made the two lengths equal.
\<close>

fun Addition :: "(expr \<rightharpoonup> var) \<Rightarrow> expr \<Rightarrow> expr \<Rightarrow> ad_error + expr"
  and Addition_fields :: "(expr \<rightharpoonup> var) \<Rightarrow> expr list \<Rightarrow> expr list \<Rightarrow> ad_error + expr list"
where
  "Addition m base (Tuple incs) =
     (case base of
        Tuple bs \<Rightarrow>
          (if length bs = length incs
           then (case Addition_fields m bs incs of Inl e \<Rightarrow> Inl e | Inr ret \<Rightarrow> Inr (Tuple ret))
           else Inl AssertionFailed)
      | _ \<Rightarrow> Inl AssertionFailed)"
| "Addition m base increment =
     Inr (Call ''relax.add'' [base, ReplaceExprByVar m increment] NoAttrs)"
| "Addition_fields m [] incs = Inr []"
| "Addition_fields m (b # bs) [] = Inl IndexError"
| "Addition_fields m (b # bs) (i # incs) =
     (case Addition m b i of
        Inl e \<Rightarrow> Inl e
      | Inr r \<Rightarrow>
          (case Addition_fields m bs incs of Inl e \<Rightarrow> Inl e | Inr ret \<Rightarrow> Inr (r # ret)))"

text \<open>
  The update \<^verbatim>\<open>adjoint_expr_map_[v] += increment\<close>, that is
  \<^verbatim>\<open>adjoint_expr_map_[v] = Addition(adjoint_expr_map_[v], increment)\<close>. The draft states
  once and for all that ``if it is the first time we update to v, \<^verbatim>\<open>+=\<close> becomes
  \<^verbatim>\<open>=\<close>'' (written out in AD-Version 1), so an absent entry is set to the increment.
\<close>

definition AddAssign :: "var \<Rightarrow> expr \<Rightarrow> ad_state \<Rightarrow> ad_error + ad_state" where
  "AddAssign v increment s =
     (case adjoint_expr_map s v of
        None \<Rightarrow> Inr (s\<lparr>adjoint_expr_map := (adjoint_expr_map s)(v \<mapsto> increment)\<rparr>)
      | Some base \<Rightarrow>
          (case Addition (adjoint_expr_to_var s) base increment of
             Inl e \<Rightarrow> Inl e
           | Inr r \<Rightarrow> Inr (s\<lparr>adjoint_expr_map := (adjoint_expr_map s)(v \<mapsto> r)\<rparr>)))"

subsection \<open>BuildEmptyNestedTupleExpr\<close>

text \<open>
  \<open>BuildEmpty_fields\<close> is the loop over \<^verbatim>\<open>range(len(shape))\<close>, reading
  \<^verbatim>\<open>shape[i]\<close> and \<^verbatim>\<open>type[i]\<close>.
\<close>

fun BuildEmptyNestedTupleExpr :: "expr \<Rightarrow> rtype \<Rightarrow> ad_error + expr"
  and BuildEmpty_fields :: "expr list \<Rightarrow> rtype list \<Rightarrow> ad_error + expr list"
where
  "BuildEmptyNestedTupleExpr (Tuple ss) (TupleType ts) =
     (case BuildEmpty_fields ss ts of Inl e \<Rightarrow> Inl e | Inr ret \<Rightarrow> Inr (Tuple ret))"
| "BuildEmptyNestedTupleExpr sh ty = Inl CastFailed"
| "BuildEmpty_fields [] ts = Inr []"
| "BuildEmpty_fields (sh # ss) [] = Inl IndexError"
| "BuildEmpty_fields (sh # ss) (ty # ts) =
     (case (case sh of
              Tuple fs \<Rightarrow> BuildEmptyNestedTupleExpr sh ty
            | ShapeExpr dims \<Rightarrow> Inr (Call ''relax.zeros'' [sh, TypeArg ty] NoAttrs)
            | _ \<Rightarrow> Inl AssertionFailed) of
        Inl e \<Rightarrow> Inl e
      | Inr z \<Rightarrow>
          (case BuildEmpty_fields ss ts of Inl e \<Rightarrow> Inl e | Inr ret \<Rightarrow> Inr (z # ret)))"

subsection \<open>UpdateExprMap (final version of the section ``Deal With Tuple Definition'')\<close>

definition BindAndEmit :: "var \<Rightarrow> expr \<Rightarrow> ad_state \<Rightarrow> ad_state" where
  "BindAndEmit v e s = s\<lparr>emitted := emitted s @ [(v, e)]\<rparr>"

text \<open>\<^verbatim>\<open>increment[i]\<close>: the \<open>i\<close>-th field of a tuple expression.\<close>

definition tuple_field :: "expr \<Rightarrow> nat \<Rightarrow> ad_error + expr" where
  "tuple_field e i =
     (case e of
        Tuple es \<Rightarrow> (if i < length es then Inr (es ! i) else Inl IndexError)
      | _ \<Rightarrow> Inl CastFailed)"

text \<open>
  The draft writes \<^verbatim>\<open>adjoint_expr_map_[v]\<close> in the branch for a variable; no \<open>v\<close> is in
  scope there and the entry assigned is that of \<^verbatim>\<open>base\<close>, which is what is read.
  \<open>UpdateExprMap_fields\<close> is the loop over \<^verbatim>\<open>range(len(base))\<close>, with the loop index as
  its third argument. A base that is neither a variable nor a tuple takes no branch.
\<close>

fun UpdateExprMap :: "expr \<Rightarrow> expr \<Rightarrow> ad_state \<Rightarrow> ad_error + ad_state"
  and UpdateExprMap_fields :: "expr list \<Rightarrow> expr \<Rightarrow> nat \<Rightarrow> ad_state \<Rightarrow> ad_error + ad_state"
where
  "UpdateExprMap (Var base) increment s =
     (case adjoint_expr_to_var s increment of
        Some increment_var \<Rightarrow> AddAssign base (Var increment_var) s
      | None \<Rightarrow>
          (let increment_var = Fresh (next_var s);
               s1 = BindAndEmit increment_var increment (s\<lparr>next_var := Suc (next_var s)\<rparr>);
               s2 = s1\<lparr>adjoint_expr_to_var := (adjoint_expr_to_var s1)(increment \<mapsto> increment_var)\<rparr>
           in AddAssign base (Var increment_var) s2))"
| "UpdateExprMap (Tuple bs) increment s = UpdateExprMap_fields bs increment 0 s"
| "UpdateExprMap base increment s = Inr s"
| "UpdateExprMap_fields [] increment i s = Inr s"
| "UpdateExprMap_fields (b # bs) increment i s =
     (case tuple_field increment i of
        Inl e \<Rightarrow> Inl e
      | Inr inc_i \<Rightarrow>
          (case UpdateExprMap b inc_i s of
             Inl e \<Rightarrow> Inl e
           | Inr s' \<Rightarrow> UpdateExprMap_fields bs increment (Suc i) s'))"

subsection \<open>AdditionInTuple\<close>

text \<open>
  The loop of \<^verbatim>\<open>AdditionInTuple\<close> over the first layer of the tuple, with the loop index
  as third argument. The draft compares the index with \<^verbatim>\<open>index\<close>; the parameter is
  named \<^verbatim>\<open>pos\<close>.
\<close>

fun AdditionInTuple_loop ::
  "(expr \<rightharpoonup> var) \<Rightarrow> expr list \<Rightarrow> nat \<Rightarrow> nat \<Rightarrow> expr \<Rightarrow> ad_error + expr list" where
  "AdditionInTuple_loop m [] i pos increment = Inr []"
| "AdditionInTuple_loop m (f # fs) i pos increment =
     (case (if i = pos then Addition m f increment else Inr f) of
        Inl e \<Rightarrow> Inl e
      | Inr r \<Rightarrow>
          (case AdditionInTuple_loop m fs (Suc i) pos increment of
             Inl e \<Rightarrow> Inl e
           | Inr ret \<Rightarrow> Inr (r # ret)))"

definition AdditionInTuple ::
  "(expr \<rightharpoonup> var) \<Rightarrow> expr \<Rightarrow> nat \<Rightarrow> expr \<Rightarrow> ad_error + expr" where
  "AdditionInTuple m tuple pos increment =
     (case tuple of
        Tuple fs \<Rightarrow>
          (case AdditionInTuple_loop m fs 0 pos increment of
             Inl e \<Rightarrow> Inl e
           | Inr ret \<Rightarrow> Inr (Tuple ret))
      | _ \<Rightarrow> Inl CastFailed)"

subsection \<open>The reverse walk (AD-Version 1, with the cases of section 3)\<close>

text \<open>
  \<^verbatim>\<open>emit_and_bind(adjoint_var, adjoint_expr)\<close> appends the binding to the output. The
  section ``Addition'' maintains \<^verbatim>\<open>adjoint_expr_to_var_\<close> as the map from an adjoint
  expression to its adjoint variable (``if \<^verbatim>\<open>adjoint_expr_map_[a]\<close> is not a Tuple, it
  will be replaced with \<^verbatim>\<open>adjoint_var_map_[a]\<close> finally by ReplaceExprByVar''), so the
  pair is recorded there when it is bound.
\<close>

definition emit_and_bind :: "var \<Rightarrow> expr \<Rightarrow> ad_state \<Rightarrow> ad_state" where
  "emit_and_bind v e s =
     s\<lparr>emitted := emitted s @ [(v, e)],
       adjoint_expr_to_var := (adjoint_expr_to_var s)(e \<mapsto> v)\<rparr>"

text \<open>
  The seed \<^verbatim>\<open>adjoint_expr_map_[binding->var] = 1\<close>; E.g. 1.1 prints it as
  \<^verbatim>\<open>R.ones((), dtype="float32")\<close>, the type being that of the target.
\<close>

definition target_seed :: "ad_ctx \<Rightarrow> expr" where
  "target_seed ctx =
     Call ''relax.ones''
       (ShapeExpr [] # (case checked_type ctx (target ctx) of Some t \<Rightarrow> [TypeArg t] | None \<Rightarrow> []))
       NoAttrs"

text \<open>
  The loop \<^verbatim>\<open>for i in len(call.args)\<close> of AD-Version 1: \<^verbatim>\<open>partials[i]\<close> is read
  first, then the entry of the argument, which is a key of a map over variables, is set
  or added to.
\<close>

fun update_args :: "expr list \<Rightarrow> expr list \<Rightarrow> ad_state \<Rightarrow> ad_error + ad_state" where
  "update_args [] partials s = Inr s"
| "update_args (arg # args) [] s = Inl IndexError"
| "update_args (arg # args) (partial # partials) s =
     (case arg of
        Var a \<Rightarrow>
          (case AddAssign a partial s of
             Inl e \<Rightarrow> Inl e
           | Inr s' \<Rightarrow> update_args args partials s')
      | _ \<Rightarrow> Inl CastFailed)"

text \<open>
  The first-time update of the section ``Deal With TupleGetItem''. The draft's statement
  \<^verbatim>\<open>BuildEmptyNestedTuple(updated_tuple->shape, updated_tuple->checked_type)\<close> builds
  ``the whole skeleton of this adjoint Tuple first''; the next statement reads it from
  \<^verbatim>\<open>adjoint_expr_map_[tuple_var]\<close>, where it is therefore stored.
\<close>

definition first_time_update :: "ad_ctx \<Rightarrow> var \<Rightarrow> ad_state \<Rightarrow> ad_error + ad_state" where
  "first_time_update ctx tuple_var s =
     (case adjoint_expr_map s tuple_var of
        Some t \<Rightarrow> Inr s
      | None \<Rightarrow>
          (case var_shape ctx tuple_var of
             None \<Rightarrow> Inl KeyError
           | Some sh \<Rightarrow>
               (case checked_type ctx tuple_var of
                  None \<Rightarrow> Inl KeyError
                | Some ty \<Rightarrow>
                    (case BuildEmptyNestedTupleExpr sh ty of
                       Inl e \<Rightarrow> Inl e
                     | Inr skeleton \<Rightarrow>
                         Inr (s\<lparr>adjoint_expr_map := (adjoint_expr_map s)(tuple_var \<mapsto> skeleton)\<rparr>)))))"

text \<open>
  The dispatch on \<^verbatim>\<open>binding->value\<close>, after the adjoint of the bound variable has been
  emitted: a primitive call (AD-Version 1), an assignment (``just check whether
  \<^verbatim>\<open>binding->value\<close> is a Var''; the increment is the adjoint expression), a tuple (the
  two assertions of the handler, then \<open>UpdateExprMap\<close> on the tuple and the adjoint
  expression) and a \<open>TupleGetItem\<close>. The other node kinds are not considered by the draft.
\<close>

fun propagate :: "ad_ctx \<Rightarrow> var \<Rightarrow> expr \<Rightarrow> expr \<Rightarrow> ad_state \<Rightarrow> ad_error + ad_state" where
  "propagate ctx adjoint_var adjoint_expr (Call opn args at) s =
     (case gradient_map ctx opn of
        None \<Rightarrow> Inl (UnknownGradient opn)
      | Some gradient \<Rightarrow>
          update_args args (gradient (Call opn args at) (Var adjoint_var)) s)"
| "propagate ctx adjoint_var adjoint_expr (Var b) s = AddAssign b adjoint_expr s"
| "propagate ctx adjoint_var adjoint_expr (Tuple fs) s =
     (case adjoint_expr of
        Tuple es \<Rightarrow>
          (if length fs = length es then UpdateExprMap (Tuple fs) adjoint_expr s
           else Inl AssertionFailed)
      | _ \<Rightarrow> Inl AssertionFailed)"
| "propagate ctx adjoint_var adjoint_expr (TupleGetItem updated_tuple index) s =
     (case updated_tuple of
        Var tuple_var \<Rightarrow>
          (case first_time_update ctx tuple_var s of
             Inl e \<Rightarrow> Inl e
           | Inr s1 \<Rightarrow>
               (case adjoint_expr_map s1 tuple_var of
                  None \<Rightarrow> Inl KeyError
                | Some t \<Rightarrow>
                    (case AdditionInTuple (adjoint_expr_to_var s1) t index adjoint_expr of
                       Inl e \<Rightarrow> Inl e
                     | Inr r \<Rightarrow>
                         Inr (s1\<lparr>adjoint_expr_map := (adjoint_expr_map s1)(tuple_var \<mapsto> r)\<rparr>))))
      | _ \<Rightarrow> Inl CastFailed)"
| "propagate ctx adjoint_var adjoint_expr other s = Inl UnsupportedBinding"

text \<open>
  One iteration of \<^verbatim>\<open>for binding in reverse_order\<close>. The adjoint variable is allocated
  and recorded before the test for irrelevant parts, as in the draft.
\<close>

definition visit :: "ad_ctx \<Rightarrow> var \<times> expr \<Rightarrow> ad_state \<Rightarrow> ad_error + ad_state" where
  "visit ctx binding s =
     (let adjoint_var = Fresh (next_var s);
          s1 = s\<lparr>adjoint_var_map := (adjoint_var_map s)(fst binding \<mapsto> adjoint_var),
                 next_var := Suc (next_var s)\<rparr>
      in case adjoint_expr_map s1 (fst binding) of
           None \<Rightarrow>
             (if fst binding = target ctx
              then (let s2 = s1\<lparr>adjoint_expr_map :=
                                  (adjoint_expr_map s1)(fst binding \<mapsto> target_seed ctx)\<rparr>
                    in propagate ctx adjoint_var (target_seed ctx) (snd binding)
                         (emit_and_bind adjoint_var (target_seed ctx) s2))
              else Inr s1)
         | Some adjoint_expr \<Rightarrow>
             propagate ctx adjoint_var adjoint_expr (snd binding)
               (emit_and_bind adjoint_var adjoint_expr s1))"

fun walk :: "ad_ctx \<Rightarrow> (var \<times> expr) list \<Rightarrow> ad_state \<Rightarrow> ad_error + ad_state" where
  "walk ctx [] s = Inr s"
| "walk ctx (b # bs) s =
     (case visit ctx b s of Inl e \<Rightarrow> Inl e | Inr s' \<Rightarrow> walk ctx bs s')"

definition reverse_walk :: "ad_ctx \<Rightarrow> (var \<times> expr) list \<Rightarrow> ad_state \<Rightarrow> ad_error + ad_state" where
  "reverse_walk ctx bds s = walk ctx (rev bds) s"

subsection \<open>The gradients and examples of the draft\<close>

text \<open>
  \<^verbatim>\<open>orig.args[i].shape\<close> in the gradients registered by the draft for
  \<^verbatim>\<open>relax.sum\<close> and \<^verbatim>\<open>relax.add\<close>. A gradient is a pure function to a list of
  partials; on a call that lacks the argument it reads, these return no partial.
\<close>

definition shape_of :: "(var \<rightharpoonup> expr) \<Rightarrow> expr \<Rightarrow> expr" where
  "shape_of sh e =
     (case e of
        Var v \<Rightarrow> (case sh v of Some x \<Rightarrow> x | None \<Rightarrow> ShapeExpr [])
      | _ \<Rightarrow> ShapeExpr [])"

definition sum_grad :: "(var \<rightharpoonup> expr) \<Rightarrow> expr \<Rightarrow> expr \<Rightarrow> expr list" where
  "sum_grad sh orig grad =
     (case call_args orig of
        a # _ \<Rightarrow> [Call ''relax.broadcast_to'' [grad, shape_of sh a] NoAttrs]
      | [] \<Rightarrow> [])"

definition add_grad :: "(var \<rightharpoonup> expr) \<Rightarrow> expr \<Rightarrow> expr \<Rightarrow> expr list" where
  "add_grad sh orig grad =
     (case call_args orig of
        a # b # _ \<Rightarrow>
          [Call ''relax.collapse_sum_to'' [grad, shape_of sh a] NoAttrs,
           Call ''relax.collapse_sum_to'' [grad, shape_of sh b] NoAttrs]
      | _ \<Rightarrow> [])"

definition f32 :: DataType where
  "f32 = DataType kFloat 32 1"

text \<open>E.g. 1.1 and E.g. 1.2: two \<open>(5, 5)\<close> tensors of type float32, a scalar target.\<close>

definition eg_shape :: "var \<rightharpoonup> expr" where
  "eg_shape =
     [Named ''x'' \<mapsto> ShapeExpr [5, 5], Named ''y'' \<mapsto> ShapeExpr [5, 5],
      Named ''lv0'' \<mapsto> ShapeExpr [5, 5], Named ''lv1'' \<mapsto> ShapeExpr [5, 5],
      Named ''lv2'' \<mapsto> ShapeExpr [], Named ''gv0'' \<mapsto> ShapeExpr []]"

definition eg_ctx :: ad_ctx where
  "eg_ctx =
     \<lparr>target = Named ''gv0'',
      gradient_map = [''relax.sum'' \<mapsto> sum_grad eg_shape, ''relax.add'' \<mapsto> add_grad eg_shape],
      var_shape = eg_shape,
      checked_type = (\<lambda>v. Some (DynTensorType f32))\<rparr>"


definition eg_1_2 :: "(var \<times> expr) list" where
  "eg_1_2 =
     [(Named ''lv0'', Call ''relax.add'' [Var (Named ''x''), Var (Named ''y'')] NoAttrs),
      (Named ''lv1'', Call ''relax.sub'' [Var (Named ''x''), Var (Named ''y'')] NoAttrs),
      (Named ''lv2'', Call ''relax.sum'' [Var (Named ''lv1'')] NoAttrs),
      (Named ''gv0'', Call ''relax.sum'' [Var (Named ''lv0'')] NoAttrs)]"

section \<open>The structural types and the driver of the specification\<close>






record func =
  params :: "var list"
  body :: "(var \<times> expr) list"
  ret :: expr










section \<open>Notions used to state the properties\<close>



















text \<open>Inputs of the worked examples below.\<close>

definition int32_env :: sinfo_env where
  "int32_env = [Var (Named ''x'') \<mapsto> TensorStructInfo (DataType kInt 32 1) None]"










text \<open>
  A registry whose gradient for \<^verbatim>\<open>relax.sum\<close> returns the output gradient twice, and
  struct infos for the variables it meets on E.g. 1.1 (the adjoint variable of the scalar
  \<open>gv0\<close> is a scalar).
\<close>

definition two_partials :: "expr \<Rightarrow> expr \<Rightarrow> expr list" where
  "two_partials orig grad = [grad, grad]"

definition two_ctx :: ad_ctx where
  "two_ctx = eg_ctx\<lparr>gradient_map := [''relax.sum'' \<mapsto> two_partials]\<rparr>"

definition eg_sinfo :: sinfo_env where
  "eg_sinfo =
     [Var (Named ''lv0'') \<mapsto> TensorStructInfo f32 (Some [5, 5]),
      Var (Named ''gv0'') \<mapsto> TensorStructInfo f32 (Some []),
      Var (Fresh 0) \<mapsto> TensorStructInfo f32 (Some [])]"

section \<open>Properties of the operator library\<close>

text \<open>
  C9. Every invocation of \<open>nll_loss_backward\<close> yields a call to the operator
  \<^verbatim>\<open>relax.grad.nll_loss_backward\<close> whose attributes carry the given reduction and
  ignore index, whose arguments are the output gradient, the predictions, the targets and,
  when defined, the weights, and whose inferred struct info is that of the predictions.
\<close>

theorem nll_loss_backward_call:
  "call_op (nll_loss_backward og p t w r ii) = ''relax.grad.nll_loss_backward''
   \<and> attrs_reduction (call_attrs (nll_loss_backward og p t w r ii)) = r
   \<and> attrs_ignore_index (call_attrs (nll_loss_backward og p t w r ii)) = ii
   \<and> call_attrs (nll_loss_backward og p t w r ii) = NLLLossAttrs r ii
   \<and> call_args (nll_loss_backward og p t (Some x) r ii) = [og, p, t, x]
   \<and> call_args (nll_loss_backward og p t None r ii) = [og, p, t]
   \<and> InferStructInfoNLLLossBackward \<Gamma> (nll_loss_backward og p t w r ii) = GetStructInfo \<Gamma> p"
  by (cases w)
     (simp_all add: nll_loss_backward_def call_op_def call_args_def call_attrs_def
        InferStructInfoNLLLossBackward_def arg_at_def)


text \<open>
  C10. For a unary arithmetic operator registered with \<open>require_float_dtype = true\<close>
  (such as \<^verbatim>\<open>relax.exp\<close>, \<^verbatim>\<open>relax.sin\<close>, \<^verbatim>\<open>relax.sqrt\<close>) and a call whose single input
  is a tensor, struct-info inference reports the fatal error exactly when the dtype of
  the input is known and is not a float dtype, and otherwise returns the struct info of
  the input unchanged.
\<close>

theorem unary_infer_require_float:
  assumes "map_of unary_registry opn = Some True"
      and "GetUnaryInputTensorStructInfo \<Gamma> call = Inr input_sinfo"
  shows "\<exists>infer. FInferStructInfo_unary opn = Some infer
           \<and> (isl (infer \<Gamma> call) \<longleftrightarrow>
                 \<not> IsUnknownDtype (dtype input_sinfo) \<and> \<not> is_float (dtype input_sinfo))
           \<and> (isl (infer \<Gamma> call) \<longrightarrow>
                 infer \<Gamma> call = Inl (RequiresFloatDtype (call_op call) (dtype input_sinfo)))
           \<and> (\<not> isl (infer \<Gamma> call) \<longrightarrow> infer \<Gamma> call = Inr input_sinfo)"
  using assms by (simp add: FInferStructInfo_unary_def InferStructInfoUnary_def)

theorem unary_infer_require_float_witness:
  "map_of unary_registry ''relax.exp'' = Some True
   \<and> map_of unary_registry ''relax.sin'' = Some True
   \<and> map_of unary_registry ''relax.sqrt'' = Some True
   \<and> GetUnaryInputTensorStructInfo int32_env (Call ''relax.exp'' [Var (Named ''x'')] NoAttrs)
       = Inr (TensorStructInfo (DataType kInt 32 1) None)
   \<and> (\<exists>infer. FInferStructInfo_unary ''relax.exp'' = Some infer
        \<and> infer int32_env (Call ''relax.exp'' [Var (Named ''x'')] NoAttrs)
            = Inl (RequiresFloatDtype ''relax.exp'' (DataType kInt 32 1)))"
proof -
  have reg: "map_of unary_registry ''relax.exp'' = Some True"
    by (simp add: unary_registry_def unary_arith_ops_def)
  have reg2: "map_of unary_registry ''relax.sin'' = Some True"
      "map_of unary_registry ''relax.sqrt'' = Some True"
    by (simp_all add: unary_registry_def unary_arith_ops_def)
  have g: "GetUnaryInputTensorStructInfo int32_env (Call ''relax.exp'' [Var (Named ''x'')] NoAttrs)
             = Inr (TensorStructInfo (DataType kInt 32 1) None)"
    by (simp add: GetUnaryInputTensorStructInfo_def GetInputTensorStructInfo_def
          GetStructInfo_def int32_env_def)
  from unary_infer_require_float [OF reg g] reg reg2 g show ?thesis
    by (auto simp add: IsUnknownDtype_def is_void_def is_float_def call_op_def)
qed

section \<open>Properties of the reverse walk\<close>

text \<open>
  C2 (as amended). A binding whose variable has no adjoint expression when it is visited
  and is not the target is skipped: no binding is emitted, no adjoint expression and no
  entry of \<^verbatim>\<open>adjoint_expr_to_var_\<close> changes, and the bound expression is not looked at.
  The walker has however allocated an adjoint variable and recorded it in
  \<^verbatim>\<open>adjoint_var_map_\<close> before the test.
\<close>

theorem visit_irrelevant:
  assumes "adjoint_expr_map s V = None" and "V \<noteq> target ctx"
  shows "visit ctx (V, E) s =
           Inr (s\<lparr>adjoint_var_map := (adjoint_var_map s)(V \<mapsto> Fresh (next_var s)),
                  next_var := Suc (next_var s)\<rparr>)"
  using assms by (simp add: visit_def)

theorem visit_irrelevant_witness:
  "adjoint_expr_map init_state (Named ''lv2'') = None
   \<and> Named ''lv2'' \<noteq> target eg_ctx
   \<and> visit eg_ctx (Named ''lv2'', Call ''relax.sum'' [Var (Named ''lv1'')] NoAttrs) init_state =
       Inr (init_state\<lparr>adjoint_var_map := [Named ''lv2'' \<mapsto> Fresh 0], next_var := Suc 0\<rparr>)"
  using visit_irrelevant [of init_state "Named ''lv2''" eg_ctx]
  by (simp add: init_state_def eg_ctx_def)

text \<open>
  The claim as stated fails on E.g. 1.2. Visiting the irrelevant binding
  \<open>lv2 = sum(lv1)\<close> adds an entry for \<open>lv2\<close> to \<^verbatim>\<open>adjoint_var_map_\<close>, from the
  initial state as in the whole walk, which ends with adjoint variables recorded for the
  irrelevant \<open>lv1\<close> and \<open>lv2\<close>. And visiting the binding of the target \<open>gv0\<close>, which
  has no adjoint expression either, seeds it and emits its adjoint.
\<close>

theorem visit_irrelevant_counterexample:
  "adjoint_expr_map init_state (Named ''lv2'') = None
   \<and> adjoint_var_map init_state (Named ''lv2'') = None
   \<and> map_sum id (\<lambda>s. adjoint_var_map s (Named ''lv2''))
        (visit eg_ctx (Named ''lv2'', Call ''relax.sum'' [Var (Named ''lv1'')] NoAttrs) init_state)
       = Inr (Some (Fresh 0))
   \<and> (case reverse_walk eg_ctx eg_1_2 init_state of
        Inl e \<Rightarrow> False
      | Inr s' \<Rightarrow>
          adjoint_expr_map s' (Named ''lv2'') = None \<and> adjoint_expr_map s' (Named ''lv1'') = None
          \<and> adjoint_var_map s' (Named ''lv2'') = Some (Fresh 1)
          \<and> adjoint_var_map s' (Named ''lv1'') = Some (Fresh 2))
   \<and> adjoint_expr_map init_state (Named ''gv0'') = None
   \<and> map_sum id emitted
        (visit eg_ctx (Named ''gv0'', Call ''relax.sum'' [Var (Named ''lv0'')] NoAttrs) init_state)
       = Inr [(Fresh 0, Call ''relax.ones'' [ShapeExpr [], TypeArg (DynTensorType f32)] NoAttrs)]"
proof -
  have a: "adjoint_expr_map init_state (Named ''lv2'') = None
   \<and> adjoint_var_map init_state (Named ''lv2'') = None
   \<and> map_sum id (\<lambda>s. adjoint_var_map s (Named ''lv2''))
        (visit eg_ctx (Named ''lv2'', Call ''relax.sum'' [Var (Named ''lv1'')] NoAttrs) init_state)
       = Inr (Some (Fresh 0))"
    by (simp add: visit_def init_state_def eg_ctx_def Let_def)
  have b: "(case reverse_walk eg_ctx eg_1_2 init_state of
        Inl e \<Rightarrow> False
      | Inr s' \<Rightarrow>
          adjoint_expr_map s' (Named ''lv2'') = None \<and> adjoint_expr_map s' (Named ''lv1'') = None
          \<and> adjoint_var_map s' (Named ''lv2'') = Some (Fresh 1)
          \<and> adjoint_var_map s' (Named ''lv1'') = Some (Fresh 2))"
    by (simp add: reverse_walk_def eg_1_2_def eg_ctx_def init_state_def visit_def
          emit_and_bind_def target_seed_def AddAssign_def sum_grad_def add_grad_def
          call_args_def Let_def)
  have c: "adjoint_expr_map init_state (Named ''gv0'') = None
   \<and> map_sum id emitted
        (visit eg_ctx (Named ''gv0'', Call ''relax.sum'' [Var (Named ''lv0'')] NoAttrs) init_state)
       = Inr [(Fresh 0, Call ''relax.ones'' [ShapeExpr [], TypeArg (DynTensorType f32)] NoAttrs)]"
    by (simp add: visit_def init_state_def eg_ctx_def target_seed_def emit_and_bind_def
          sum_grad_def call_args_def AddAssign_def Let_def)
  from a b c show ?thesis by simp
qed

subsection \<open>UnknownGradient\<close>









lemma walk_append:
  "walk ctx (xs @ ys) s = (case walk ctx xs s of Inl e \<Rightarrow> Inl e | Inr s' \<Rightarrow> walk ctx ys s')"
  by (induction xs arbitrary: s) (auto split: sum.splits)






subsection \<open>Evaluating the walk on the examples\<close>


subsection \<open>Naming of increments\<close>







subsection \<open>Tuple definitions\<close>





subsection \<open>TupleGetItem: the partial update of a tuple adjoint\<close>













lemma emit_and_bind_adjoint_expr_map [simp]:
  "adjoint_expr_map (emit_and_bind v e s) = adjoint_expr_map s"
  by (simp add: emit_and_bind_def)








subsection \<open>Accumulation: one addition per further contribution\<close>
















subsection \<open>Gradient dispatch\<close>

lemma update_args_length:
  "update_args args ps s = Inr s' \<Longrightarrow> length args \<le> length ps"
  by (induction args ps s rule: update_args.induct) (auto split: expr.splits sum.splits)

lemma update_args_take:
  "length args \<le> length ps \<Longrightarrow> update_args args (take (length args) ps) s = update_args args ps s"
  by (induction args ps s rule: update_args.induct) (auto split: expr.splits sum.splits)

text \<open>
  C8 (as amended). For a call with \<open>n\<close> arguments dispatched during the reverse walk, the
  walker reads the partials returned by the registered gradient position by position:
  the dispatch succeeds only when at least \<open>n\<close> partials were returned, and it folds the
  first \<open>n\<close> and ignores the others. The dispatch of a call does not depend on the shape
  and type annotations, so no structural type is compared and no failure for a
  mismatching partial exists. On the side of the operator library, the backward
  operators \<^verbatim>\<open>nll_loss_backward\<close> and \<^verbatim>\<open>max_pool2d_backward\<close> infer for their result
  the struct info of their second argument (the predictions, the data).
\<close>

theorem call_dispatch_partials:
  "(\<forall>s'. propagate ctx A ae (Call opn args at) s = Inr s' \<longrightarrow>
      (\<exists>g. gradient_map ctx opn = Some g
         \<and> length args \<le> length (g (Call opn args at) (Var A))
         \<and> update_args args (take (length args) (g (Call opn args at) (Var A))) s = Inr s'))
   \<and> propagate (ctx\<lparr>var_shape := sh, checked_type := ct\<rparr>) A ae (Call opn args at) s
       = propagate ctx A ae (Call opn args at) s
   \<and> (\<forall>a. arg_at (call_args call) 1 = Inr a \<longrightarrow>
         InferStructInfoNLLLossBackward \<Gamma> call = GetStructInfo \<Gamma> a
         \<and> InferStructInfoMaxPool2DBackward \<Gamma> call = GetStructInfo \<Gamma> a)"
proof (intro conjI allI impI)
  fix s' assume p: "propagate ctx A ae (Call opn args at) s = Inr s'"
  then obtain g where g: "gradient_map ctx opn = Some g"
      "update_args args (g (Call opn args at) (Var A)) s = Inr s'"
    by (auto split: option.splits)
  from update_args_length [OF g(2)] update_args_take [of args "g (Call opn args at) (Var A)" s] g
  show "\<exists>g. gradient_map ctx opn = Some g
         \<and> length args \<le> length (g (Call opn args at) (Var A))
         \<and> update_args args (take (length args) (g (Call opn args at) (Var A))) s = Inr s'"
    by simp
next
  show "propagate (ctx\<lparr>var_shape := sh, checked_type := ct\<rparr>) A ae (Call opn args at) s
       = propagate ctx A ae (Call opn args at) s" by simp
next
  fix a assume "arg_at (call_args call) 1 = Inr a"
  then show "InferStructInfoNLLLossBackward \<Gamma> call = GetStructInfo \<Gamma> a"
    by (simp add: InferStructInfoNLLLossBackward_def)
next
  fix a assume "arg_at (call_args call) 1 = Inr a"
  then show "InferStructInfoMaxPool2DBackward \<Gamma> call = GetStructInfo \<Gamma> a"
    by (simp add: InferStructInfoMaxPool2DBackward_def)
qed

theorem call_dispatch_partials_witness:
  "(\<exists>s' g. propagate eg_ctx (Fresh 0) (target_seed eg_ctx)
              (Call ''relax.sum'' [Var (Named ''lv0'')] NoAttrs) init_state = Inr s'
        \<and> gradient_map eg_ctx ''relax.sum'' = Some g
        \<and> length [Var (Named ''lv0'')]
             \<le> length (g (Call ''relax.sum'' [Var (Named ''lv0'')] NoAttrs) (Var (Fresh 0))))
   \<and> arg_at (call_args (nll_loss_backward (Var (Named ''og'')) (Var (Named ''p''))
                (Var (Named ''t'')) None ''mean'' (-100))) 1 = Inr (Var (Named ''p''))
   \<and> InferStructInfoMaxPool2DBackward eg_sinfo
        (Call ''relax.grad.max_pool2d_backward'' [Var (Named ''gv0''), Var (Named ''lv0'')] NoAttrs)
       = Inr (TensorStructInfo f32 (Some [5, 5]))"
proof -
  have "\<not> isl (propagate eg_ctx (Fresh 0) (target_seed eg_ctx)
              (Call ''relax.sum'' [Var (Named ''lv0'')] NoAttrs) init_state)"
    by (simp add: eg_ctx_def sum_grad_def call_args_def AddAssign_def init_state_def)
  then obtain s' where s': "propagate eg_ctx (Fresh 0) (target_seed eg_ctx)
              (Call ''relax.sum'' [Var (Named ''lv0'')] NoAttrs) init_state = Inr s'"
    by (cases "propagate eg_ctx (Fresh 0) (target_seed eg_ctx)
              (Call ''relax.sum'' [Var (Named ''lv0'')] NoAttrs) init_state") auto
  note T = call_dispatch_partials [where ctx = eg_ctx and A = "Fresh 0"
      and ae = "target_seed eg_ctx" and opn = "''relax.sum''"
      and args = "[Var (Named ''lv0'')]" and at = NoAttrs and s = init_state
      and call = "Call ''relax.grad.max_pool2d_backward''
                    [Var (Named ''gv0''), Var (Named ''lv0'')] NoAttrs"
      and \<Gamma> = eg_sinfo]
  from T s' have a: "\<exists>g. gradient_map eg_ctx ''relax.sum'' = Some g
        \<and> length [Var (Named ''lv0'')]
             \<le> length (g (Call ''relax.sum'' [Var (Named ''lv0'')] NoAttrs) (Var (Fresh 0)))"
    by blast
  have b: "arg_at (call_args (Call ''relax.grad.max_pool2d_backward''
              [Var (Named ''gv0''), Var (Named ''lv0'')] NoAttrs)) 1 = Inr (Var (Named ''lv0''))"
    by (simp add: arg_at_def call_args_def)
  from T b have c: "InferStructInfoMaxPool2DBackward eg_sinfo
        (Call ''relax.grad.max_pool2d_backward'' [Var (Named ''gv0''), Var (Named ''lv0'')] NoAttrs)
       = GetStructInfo eg_sinfo (Var (Named ''lv0''))"
    by blast
  have d: "GetStructInfo eg_sinfo (Var (Named ''lv0'')) = Inr (TensorStructInfo f32 (Some [5, 5]))"
    by (simp add: GetStructInfo_def eg_sinfo_def)
  have e: "arg_at (call_args (nll_loss_backward (Var (Named ''og'')) (Var (Named ''p''))
                (Var (Named ''t'')) None ''mean'' (-100))) 1 = Inr (Var (Named ''p''))"
    by (simp add: arg_at_def call_args_def nll_loss_backward_def)
  from s' a c d e show ?thesis by auto
qed

text \<open>
  The claim as stated fails on a registry whose gradient for the unary \<^verbatim>\<open>relax.sum\<close>
  returns two partials, the first of them the scalar output gradient for a \<open>(5, 5)\<close>
  argument: the walk succeeds and makes that partial the adjoint of \<open>lv0\<close>.
\<close>

theorem call_dispatch_partials_counterexample:
  "gradient_map two_ctx ''relax.sum'' = Some two_partials
   \<and> length (call_args (Call ''relax.sum'' [Var (Named ''lv0'')] NoAttrs)) = 1
   \<and> length (two_partials (Call ''relax.sum'' [Var (Named ''lv0'')] NoAttrs) (Var (Fresh 0))) = 2
   \<and> GetStructInfo eg_sinfo
        (two_partials (Call ''relax.sum'' [Var (Named ''lv0'')] NoAttrs) (Var (Fresh 0)) ! 0)
       = Inr (TensorStructInfo f32 (Some []))
   \<and> GetStructInfo eg_sinfo (Var (Named ''lv0'')) = Inr (TensorStructInfo f32 (Some [5, 5]))
   \<and> (case reverse_walk two_ctx
              [(Named ''gv0'', Call ''relax.sum'' [Var (Named ''lv0'')] NoAttrs)] init_state of
        Inl e \<Rightarrow> False
      | Inr s' \<Rightarrow>
          adjoint_var_map s' (Named ''gv0'') = Some (Fresh 0)
          \<and> adjoint_expr_map s' (Named ''lv0'') = Some (Var (Fresh 0)))"
  by (simp add: two_ctx_def two_partials_def eg_ctx_def eg_sinfo_def GetStructInfo_def
        call_args_def reverse_walk_def visit_def emit_and_bind_def target_seed_def
        AddAssign_def init_state_def Let_def)

section \<open>Properties of the driver\<close>










end
